theory Spec2Isabelle
  imports Main
begin

section \<open>Python values used by \<open>lambda_ssl_pinning.py\<close>\<close>

text \<open>
  A Python \<open>str\<close> is a sequence of Unicode code points, and \<open>len\<close>, indexing and
  \<open>split\<close> all work on code points, so a string is modelled as a list of code points.
  \<open>str\<close> turns an ASCII literal into that representation.
\<close>

type_synonym pystr = "nat list"

definition str :: "string \<Rightarrow> pystr" where
  "str cs = map of_char cs"

text \<open>
  The characters that \<open>str.split()\<close> (called without a separator) treats as whitespace:
  the code points for which \<open>str.isspace\<close> holds. In ASCII these are TAB, LF, VT, FF, CR,
  the four separators FS, GS, RS, US and the space; beyond ASCII NEL, NBSP and the Unicode
  space separators.
\<close>

definition is_space :: "nat \<Rightarrow> bool" where
  "is_space c \<longleftrightarrow>
     (9 \<le> c \<and> c \<le> 13) \<or> (28 \<le> c \<and> c \<le> 32) \<or> c = 133 \<or> c = 160 \<or> c = 5760 \<or>
     (8192 \<le> c \<and> c \<le> 8202) \<or> c = 8232 \<or> c = 8233 \<or> c = 8239 \<or> c = 8287 \<or>
     c = 12288"

text \<open>
  \<open>s.split()\<close>: skip a run of whitespace, take the following run of non-whitespace as one
  word, repeat. The result has no empty word.
\<close>

function split_ws :: "pystr \<Rightarrow> pystr list" where
  "split_ws s =
     (case dropWhile is_space s of
        [] \<Rightarrow> []
      | c # cs \<Rightarrow>
          takeWhile (\<lambda>x. \<not> is_space x) (c # cs)
            # split_ws (dropWhile (\<lambda>x. \<not> is_space x) (c # cs)))"
  by pat_completeness auto
termination
proof (relation "measure length")
  show "wf (measure (length :: pystr \<Rightarrow> nat))" by simp
next
  fix s :: pystr and c cs
  assume d: "dropWhile is_space s = c # cs"
  have "\<not> is_space (hd (dropWhile is_space s))"
    by (rule hd_dropWhile) (simp add: d)
  then have nsp: "\<not> is_space c" by (simp add: d)
  have "length (dropWhile (\<lambda>x. \<not> is_space x) cs) \<le> length cs"
    by (rule length_dropWhile_le)
  also have "length cs < length (dropWhile is_space s)" by (simp add: d)
  also have "\<dots> \<le> length s" by (rule length_dropWhile_le)
  finally show "(dropWhile (\<lambda>x. \<not> is_space x) (c # cs), s) \<in> measure length"
    using nsp by simp
qed

declare split_ws.simps [simp del]

text \<open>\<open>sep.join(words)\<close>: the words in order with \<open>sep\<close> between neighbours.\<close>

fun str_join :: "pystr \<Rightarrow> pystr list \<Rightarrow> pystr" where
  "str_join sep [] = []"
| "str_join sep [w] = w"
| "str_join sep (w # v # ws) = w @ sep @ str_join sep (v # ws)"

text \<open>
  The expression \<open>"".join(x.split())\<close>, which the source applies to the three pinned
  certificates (lines 27 to 29) and to every extracted chain entry (line 100).
\<close>

definition remove_whitespace :: "pystr \<Rightarrow> pystr" where
  "remove_whitespace s = str_join [] (split_ws s)"

text \<open>
  The exceptions of the model. The first four are raised by the Python operations of the
  source itself: subscripting, keyword-argument binding, attribute lookup and list
  indexing. \<open>Raised\<close> stands for an exception of class \<open>Exception\<close> raised inside a
  library call (boto3, json, socket, ssl), with the name of its class.
\<close>

datatype exn = KeyError | TypeError | AttributeError | IndexError | Raised string

text \<open>
  \<open>xs[i]\<close> on a list: a negative index counts from the end, an index outside
  \<open>-len(xs) .. len(xs) - 1\<close> raises IndexError.
\<close>

definition list_getitem :: "'a list \<Rightarrow> int \<Rightarrow> exn + 'a" where
  "list_getitem xs i =
     (if 0 \<le> i then (if i < int (length xs) then Inr (xs ! nat i) else Inl IndexError)
      else (if - int (length xs) \<le> i then Inr (xs ! nat (int (length xs) + i))
            else Inl IndexError))"

section \<open>\<open>extract_certificate\<close>\<close>

text \<open>
  Lines 88 to 101. \<open>None\<close> is the Python \<open>None\<close> the function returns when the length
  test fails; the index is a Python \<open>int\<close> and may be negative.
\<close>

definition extract_certificate :: "pystr list \<Rightarrow> int \<Rightarrow> exn + pystr option" where
  "extract_certificate cert_chain index =
     (if int (length cert_chain) > index
      then (case list_getitem cert_chain index of
              Inl e \<Rightarrow> Inl e
            | Inr c \<Rightarrow> Inr (Some (remove_whitespace c)))
      else Inr None)"

section \<open>Decoded JSON values\<close>

text \<open>
  The event, the decoded secret and the policy the handler returns are the Python values
  that JSON decoding produces: \<open>None\<close>, booleans, numbers, strings, lists and dicts with
  string keys. A dict is an association list of its items read with \<open>map_of\<close>; the keys of
  a Python dict are distinct, so each key has one binding. A float behaves like an
  integer in every operation the source applies to these values (it has no \<open>split\<close> and
  cannot be subscripted), so \<open>JNum\<close> carries an integer.
\<close>

datatype json =
    JNull
  | JBool bool
  | JNum int
  | JStr pystr
  | JArr "json list"
  | JObj "(pystr \<times> json) list"

text \<open>
  \<open>v[key]\<close> with a string key: a dict gives the value or raises KeyError; a string or a
  list rejects a string index and the other values are not subscriptable (TypeError).
\<close>

fun getitem :: "json \<Rightarrow> pystr \<Rightarrow> exn + json" where
  "getitem (JObj kvs) key =
     (case map_of kvs key of None \<Rightarrow> Inl KeyError | Some v \<Rightarrow> Inr v)"
| "getitem v key = Inl TypeError"

section \<open>\<open>ServerConfig\<close>\<close>

text \<open>
  Lines 18 to 29. The dataclass does not check its annotations, so \<open>URL\<close> and \<open>Port\<close> hold
  whatever the secret contains. A constructed \<open>ServerConfig\<close> has strings in its three
  certificate fields, because \<open>__post_init__\<close> raises on anything else.
\<close>

record ServerConfig =
  URL :: json
  Port :: json
  ServerCert :: pystr
  IntermediateCert :: pystr
  RootCert :: pystr

definition field_names :: "pystr list" where
  "field_names =
     [str ''URL'', str ''Port'', str ''ServerCert'', str ''IntermediateCert'', str ''RootCert'']"

text \<open>
  \<open>"".join(v.split())\<close> on a decoded value: only a string has a \<open>split\<close> attribute.
\<close>

fun join_split :: "json \<Rightarrow> exn + pystr" where
  "join_split (JStr s) = Inr (remove_whitespace s)"
| "join_split v = Inl AttributeError"

text \<open>
  \<open>__post_init__\<close> (lines 26 to 29) on the five values bound by the generated
  \<open>__init__\<close>: the three assignments in order, each of which may raise.
\<close>

definition post_init :: "json \<Rightarrow> json \<Rightarrow> json \<Rightarrow> json \<Rightarrow> json \<Rightarrow> exn + ServerConfig" where
  "post_init url port server intermediate root =
     (case join_split server of
        Inl e \<Rightarrow> Inl e
      | Inr s \<Rightarrow>
          (case join_split intermediate of
             Inl e \<Rightarrow> Inl e
           | Inr i \<Rightarrow>
               (case join_split root of
                  Inl e \<Rightarrow> Inl e
                | Inr r \<Rightarrow>
                    Inr \<lparr>URL = url, Port = port, ServerCert = s,
                         IntermediateCert = i, RootCert = r\<rparr>)))"

text \<open>
  \<open>ServerConfig(**secrets_dict)\<close> (line 119). The argument of \<open>**\<close> must be a dict; the
  generated \<open>__init__\<close> has exactly the five fields as parameters without defaults, so a
  missing key and an unexpected key both raise TypeError; then \<open>__post_init__\<close> runs.
\<close>

definition ServerConfig_init :: "json \<Rightarrow> exn + ServerConfig" where
  "ServerConfig_init secrets_dict =
     (case secrets_dict of
        JObj kvs \<Rightarrow>
          (if \<not> list_all (\<lambda>k. k \<in> set field_names) (map fst kvs) then Inl TypeError
           else
             (case (map_of kvs (str ''URL''), map_of kvs (str ''Port''),
                    map_of kvs (str ''ServerCert''), map_of kvs (str ''IntermediateCert''),
                    map_of kvs (str ''RootCert'')) of
                (Some url, Some port, Some server, Some intermediate, Some root) \<Rightarrow>
                  post_init url port server intermediate root
              | _ \<Rightarrow> Inl TypeError))
      | _ \<Rightarrow> Inl TypeError)"

section \<open>The environment of one invocation\<close>

text \<open>
  What the handler reads from outside, as the outcome of each library call:
  \<^item> \<open>getenv_secret_name\<close>: \<open>os.getenv("secret_name")\<close>;
  \<^item> \<open>secret_json name\<close>:
    \<open>json.loads(secrets_client.get_secret_value(SecretId=name)["SecretString"])\<close>;
  \<^item> \<open>get_verified_chain host port\<close>: lines 45 to 51, creating the SSL context, connecting,
    the handshake and reading the verified chain as DER byte strings;
  \<^item> \<open>DER_cert_to_PEM_cert\<close>: \<open>ssl.DER_cert_to_PEM_cert\<close>.
\<close>

type_synonym der = "nat list"

record env =
  getenv_secret_name :: "pystr option"
  secret_json :: "pystr \<Rightarrow> exn + json"
  get_verified_chain :: "json \<Rightarrow> json \<Rightarrow> exn + der list"
  DER_cert_to_PEM_cert :: "der \<Rightarrow> exn + pystr"

text \<open>The calls to the outside that the handler makes, in order.\<close>

datatype io_call = GetSecretValue pystr | GetCertificateChain json json

section \<open>\<open>get_certificate_chain\<close>\<close>

text \<open>The list comprehension of lines 54 to 56: it stops at the first element that raises.\<close>

fun map_exn :: "('a \<Rightarrow> exn + 'b) \<Rightarrow> 'a list \<Rightarrow> exn + 'b list" where
  "map_exn f [] = Inr []"
| "map_exn f (x # xs) =
     (case f x of
        Inl e \<Rightarrow> Inl e
      | Inr y \<Rightarrow> (case map_exn f xs of Inl e \<Rightarrow> Inl e | Inr ys \<Rightarrow> Inr (y # ys)))"

text \<open>The body of the \<open>try\<close> block, lines 44 to 58.\<close>

definition get_certificate_chain_try :: "env \<Rightarrow> json \<Rightarrow> json \<Rightarrow> exn + pystr list" where
  "get_certificate_chain_try env hostname port =
     (case get_verified_chain env hostname port of
        Inl e \<Rightarrow> Inl e
      | Inr cert_chain \<Rightarrow> map_exn (DER_cert_to_PEM_cert env) cert_chain)"

text \<open>Lines 32 to 61: \<open>except Exception\<close> logs and returns the empty list.\<close>

definition get_certificate_chain :: "env \<Rightarrow> json \<Rightarrow> json \<Rightarrow> pystr list" where
  "get_certificate_chain env hostname port =
     (case get_certificate_chain_try env hostname port of
        Inl e \<Rightarrow> []
      | Inr pem_certificates \<Rightarrow> pem_certificates)"

section \<open>\<open>generate_policy\<close> and \<open>lambda_handler\<close>\<close>

text \<open>Lines 64 to 85.\<close>

definition generate_policy :: "json \<Rightarrow> json \<Rightarrow> json \<Rightarrow> json" where
  "generate_policy principal_id effect resource =
     JObj [(str ''principalId'', principal_id),
           (str ''policyDocument'',
            JObj [(str ''Version'', JStr (str ''2012-10-17'')),
                  (str ''Statement'',
                   JArr [JObj [(str ''Action'', JStr (str ''execute-api:Invoke'')),
                               (str ''Effect'', effect),
                               (str ''Resource'', resource)]])])]"

text \<open>
  \<open>return generate_policy(principal_id, effect, event["methodArn"])\<close>: the subscript is
  evaluated at the return statement and may raise there.
\<close>

definition return_policy :: "json \<Rightarrow> string \<Rightarrow> json \<Rightarrow> exn + json" where
  "return_policy principal_id effect event =
     (case getitem event (str ''methodArn'') of
        Inl e \<Rightarrow> Inl e
      | Inr resource \<Rightarrow> Inr (generate_policy principal_id (JStr (str effect)) resource))"

text \<open>Lines 116 to 119, the body of the \<open>try\<close> block that loads the configuration.\<close>

definition load_server_config :: "env \<Rightarrow> pystr \<Rightarrow> exn + ServerConfig" where
  "load_server_config env secret_name =
     (case secret_json env secret_name of
        Inl e \<Rightarrow> Inl e
      | Inr secrets_dict \<Rightarrow> ServerConfig_init secrets_dict)"

text \<open>
  The dict \<open>cert_results\<close> of lines 143 to 147. An extracted certificate is a string or
  \<open>None\<close>, a pinned one is a string, and \<open>==\<close> between a string and \<open>None\<close> is false.
\<close>

definition cert_results ::
  "ServerConfig \<Rightarrow> pystr option \<Rightarrow> pystr option \<Rightarrow> pystr option \<Rightarrow> (pystr \<times> bool) list" where
  "cert_results server_config server_cert intermediate_cert root_cert =
     [(str ''Server Certificate'', Some (ServerCert server_config) = server_cert),
      (str ''Intermediate Certificate'', Some (IntermediateCert server_config) = intermediate_cert),
      (str ''Root Certificate'', Some (RootCert server_config) = root_cert)]"

text \<open>
  Lines 133 to 156: the effect the handler decides on for a retrieved chain, \<open>Allow\<close> when
  \<open>all(cert_results.values())\<close>.
\<close>

definition compare_chain :: "ServerConfig \<Rightarrow> pystr list \<Rightarrow> exn + string" where
  "compare_chain server_config retrieved_cert_chain =
     (case extract_certificate retrieved_cert_chain 0 of
        Inl e \<Rightarrow> Inl e
      | Inr server_cert \<Rightarrow>
          (case extract_certificate retrieved_cert_chain 1 of
             Inl e \<Rightarrow> Inl e
           | Inr intermediate_cert \<Rightarrow>
               (case extract_certificate retrieved_cert_chain 2 of
                  Inl e \<Rightarrow> Inl e
                | Inr root_cert \<Rightarrow>
                    (if list_all id
                          (map snd (cert_results server_config server_cert
                                      intermediate_cert root_cert))
                     then Inr ''Allow'' else Inr ''Deny''))))"

text \<open>
  Lines 104 to 156. The result is what the invocation returns or the exception that
  leaves the handler, together with the calls made to the outside. Logging is left out.
\<close>

definition lambda_handler :: "env \<Rightarrow> json \<Rightarrow> (exn + json) \<times> io_call list" where
  "lambda_handler env event =
     (case getitem event (str ''requestContext'') of
        Inl e \<Rightarrow> (Inl e, [])
      | Inr request_context \<Rightarrow>
     (case getitem request_context (str ''identity'') of
        Inl e \<Rightarrow> (Inl e, [])
      | Inr identity \<Rightarrow>
     (case getitem identity (str ''sourceIp'') of
        Inl e \<Rightarrow> (Inl e, [])
      | Inr requester_ip \<Rightarrow>
     (case getenv_secret_name env of
        None \<Rightarrow> (return_policy requester_ip ''Deny'' event, [])
      | Some secret_name \<Rightarrow>
          if secret_name = [] then (return_policy requester_ip ''Deny'' event, [])
          else
            (case load_server_config env secret_name of
               Inl e \<Rightarrow>
                 (return_policy (JStr (str ''user'')) ''Deny'' event,
                  [GetSecretValue secret_name])
             | Inr server_config \<Rightarrow>
                 (let retrieved_cert_chain =
                        get_certificate_chain env (URL server_config) (Port server_config);
                      calls = [GetSecretValue secret_name,
                               GetCertificateChain (URL server_config) (Port server_config)]
                  in if retrieved_cert_chain = []
                     then (return_policy requester_ip ''Deny'' event, calls)
                     else
                       (case compare_chain server_config retrieved_cert_chain of
                          Inl e \<Rightarrow> (Inl e, calls)
                        | Inr effect \<Rightarrow> (return_policy requester_ip effect event, calls))))))))"

section \<open>Example inputs\<close>

text \<open>
  Concrete inputs on which the theorems below are instantiated: an API Gateway request
  event, a secret with the five fields, and an environment whose library calls have fixed
  outcomes (its DER to PEM conversion returns its argument and rejects the empty string).
\<close>

definition example_event :: json where
  "example_event =
     JObj [(str ''type'', JStr (str ''REQUEST'')),
           (str ''methodArn'', JStr (str ''arn:aws:execute-api:eu-west-1:123456789012:a1b2c3/prod/GET/'')),
           (str ''requestContext'',
            JObj [(str ''identity'', JObj [(str ''sourceIp'', JStr (str ''203.0.113.7''))])])]"

definition example_secret :: "pystr \<Rightarrow> pystr \<Rightarrow> pystr \<Rightarrow> json" where
  "example_secret server intermediate root =
     JObj [(str ''URL'', JStr (str ''example.com'')),
           (str ''Port'', JNum 443),
           (str ''ServerCert'', JStr server),
           (str ''IntermediateCert'', JStr intermediate),
           (str ''RootCert'', JStr root)]"

definition example_env :: "pystr option \<Rightarrow> exn + json \<Rightarrow> exn + der list \<Rightarrow> env" where
  "example_env name secret chain =
     \<lparr>getenv_secret_name = name,
      secret_json = (\<lambda>n. secret),
      get_verified_chain = (\<lambda>host port. chain),
      DER_cert_to_PEM_cert = (\<lambda>d. if d = [] then Inl (Raised ''ValueError'') else Inr d)\<rparr>"

section \<open>Whitespace removal\<close>

lemma str_join_empty_sep: "str_join [] ws = concat ws"
  by (induction "[] :: pystr" ws rule: str_join.induct) simp_all

lemma filter_nonspace_all_space:
  "dropWhile is_space s = [] \<Longrightarrow> filter (\<lambda>c. \<not> is_space c) s = []"
  by (induction s) (auto split: if_splits)

lemma filter_nonspace_dropWhile:
  "filter (\<lambda>c. \<not> is_space c) (dropWhile is_space s) = filter (\<lambda>c. \<not> is_space c) s"
  by (induction s) auto

lemma filter_takeWhile_same: "filter P (takeWhile P xs) = takeWhile P xs"
  by (induction xs) auto

lemma concat_split_ws: "concat (split_ws s) = filter (\<lambda>c. \<not> is_space c) s"
proof (induction s rule: split_ws.induct)
  case (1 s)
  show ?case
  proof (cases "dropWhile is_space s")
    case Nil
    have "split_ws s = []" by (simp add: split_ws.simps [of s] Nil)
    moreover have "filter (\<lambda>c. \<not> is_space c) s = []"
      using Nil by (rule filter_nonspace_all_space)
    ultimately show ?thesis by simp
  next
    case (Cons c cs)
    let ?P = "\<lambda>x. \<not> is_space x"
    have ih: "concat (split_ws (dropWhile ?P (c # cs))) = filter ?P (dropWhile ?P (c # cs))"
      using "1.IH" [OF Cons] .
    have "concat (split_ws s) = takeWhile ?P (c # cs) @ filter ?P (dropWhile ?P (c # cs))"
      using ih by (simp add: split_ws.simps [of s] Cons)
    also have "\<dots> = filter ?P (takeWhile ?P (c # cs) @ dropWhile ?P (c # cs))"
      by (simp only: filter_append filter_takeWhile_same)
    also have "\<dots> = filter ?P (dropWhile is_space s)"
      by (simp only: takeWhile_dropWhile_id Cons)
    also have "\<dots> = filter ?P s" by (rule filter_nonspace_dropWhile)
    finally show ?thesis .
  qed
qed

lemma remove_whitespace_filter:
  "remove_whitespace s = filter (\<lambda>c. \<not> is_space c) s"
  by (simp add: remove_whitespace_def str_join_empty_sep concat_split_ws)

text \<open>
  C9. Removing the whitespace of a string from which the whitespace has already been
  removed gives the same string.
\<close>

theorem remove_whitespace_idempotent:
  "remove_whitespace (remove_whitespace s) = remove_whitespace s"
  by (simp add: remove_whitespace_filter)

theorem remove_whitespace_idempotent_witness:
  "remove_whitespace (remove_whitespace (str '' A A  A'')) = remove_whitespace (str '' A A  A'')
   \<and> remove_whitespace (str '' A A  A'') = str ''AAA''"
  using remove_whitespace_idempotent [of "str '' A A  A''"]
  by (simp add: remove_whitespace_filter str_def is_space_def)

section \<open>Extraction by position\<close>

text \<open>
  C5. For a non-negative index, \<open>extract_certificate\<close> returns the entry at that
  position with every whitespace character removed when the index is below the length of
  the chain, and \<open>None\<close> otherwise; it does not raise.
\<close>

theorem extract_certificate_nonneg:
  "0 \<le> i \<Longrightarrow>
   extract_certificate chain i =
     Inr (if i < int (length chain)
          then Some (filter (\<lambda>c. \<not> is_space c) (chain ! nat i)) else None)"
  by (simp add: extract_certificate_def list_getitem_def remove_whitespace_filter)

theorem extract_certificate_nonneg_witness:
  "(0::int) \<le> 1 \<and> (0::int) \<le> 2
   \<and> extract_certificate [str ''AAA'', [66, 9, 66, 32, 10, 66]] 1 = Inr (Some (str ''BBB''))
   \<and> extract_certificate [str ''AAA'', [66, 9, 66, 32, 10, 66]] 2 = Inr None"
  using extract_certificate_nonneg [of 1 "[str ''AAA'', [66, 9, 66, 32, 10, 66]]"]
        extract_certificate_nonneg [of 2 "[str ''AAA'', [66, 9, 66, 32, 10, 66]]"]
  by (simp add: str_def is_space_def)

text \<open>
  C10. For a non-empty chain and an index \<open>i\<close> with \<open>-len(chain) \<le> i < 0\<close> the length test
  passes, and the result is the entry at position \<open>len(chain) + i\<close> with its whitespace
  removed, not \<open>None\<close>.
\<close>

theorem extract_certificate_negative:
  "chain \<noteq> [] \<Longrightarrow> - int (length chain) \<le> i \<Longrightarrow> i < 0 \<Longrightarrow>
   extract_certificate chain i =
     Inr (Some (remove_whitespace (chain ! nat (int (length chain) + i))))
   \<and> extract_certificate chain i \<noteq> Inr None"
  by (simp add: extract_certificate_def list_getitem_def)

theorem extract_certificate_negative_witness:
  "[str ''AAA'', str ''B B''] \<noteq> [] \<and> - int (length [str ''AAA'', str ''B B'']) \<le> - 1
   \<and> (- 1 :: int) < 0
   \<and> extract_certificate [str ''AAA'', str ''B B''] (- 1) = Inr (Some (str ''BB''))"
  using extract_certificate_negative [of "[str ''AAA'', str ''B B'']" "- 1"]
  by (simp add: remove_whitespace_filter str_def is_space_def)

section \<open>Retrieval never raises\<close>

lemma map_exn_Inr:
  "map_exn f xs = Inr ys \<Longrightarrow> length ys = length xs \<and> (\<forall>k<length xs. f (xs ! k) = Inr (ys ! k))"
proof (induction xs arbitrary: ys)
  case Nil
  then show ?case by simp
next
  case (Cons x xs)
  from Cons.prems obtain y ys' where fx: "f x = Inr y" and m: "map_exn f xs = Inr ys'"
    and ys: "ys = y # ys'"
    by (auto split: sum.splits)
  from Cons.IH [OF m] have len: "length ys' = length xs"
    and nth: "\<forall>k<length xs. f (xs ! k) = Inr (ys' ! k)" by simp_all
  show ?case
  proof (intro conjI allI impI)
    show "length ys = length (x # xs)" by (simp add: ys len)
  next
    fix k assume "k < length (x # xs)"
    then show "f ((x # xs) ! k) = Inr (ys ! k)"
      using fx nth by (cases k) (simp_all add: ys)
  qed
qed

lemma map_exn_Inl:
  "d \<in> set xs \<Longrightarrow> f d = Inl e \<Longrightarrow> \<exists>e'. map_exn f xs = Inl e'"
  by (induction xs) (auto split: sum.splits)

lemma map_exn_all_Inr:
  "\<forall>d\<in>set xs. \<exists>y. f d = Inr y \<Longrightarrow> \<exists>ys. map_exn f xs = Inr ys"
  by (induction xs) (auto split: sum.splits)

text \<open>
  C3. Whatever raises inside the \<open>try\<close> block of \<open>get_certificate_chain\<close>, be it the
  connection, the handshake or reading the chain, or the conversion of one entry, the
  function returns the empty list; when nothing raises the result has one PEM text for
  each entry of the verified chain, in the same order.
\<close>

theorem get_certificate_chain_failure_policy:
  "(get_certificate_chain_try env hostname port = Inl e \<longrightarrow>
      get_certificate_chain env hostname port = [])
   \<and> (get_verified_chain env hostname port = Inl e \<longrightarrow>
      get_certificate_chain env hostname port = [])
   \<and> (get_verified_chain env hostname port = Inr cert_chain \<longrightarrow>
        d \<in> set cert_chain \<longrightarrow> DER_cert_to_PEM_cert env d = Inl e \<longrightarrow>
      get_certificate_chain env hostname port = [])
   \<and> (get_verified_chain env hostname port = Inr cert_chain \<longrightarrow>
        (\<forall>d\<in>set cert_chain. \<exists>pem. DER_cert_to_PEM_cert env d = Inr pem) \<longrightarrow>
      length (get_certificate_chain env hostname port) = length cert_chain
      \<and> (\<forall>k<length cert_chain.
            DER_cert_to_PEM_cert env (cert_chain ! k)
              = Inr (get_certificate_chain env hostname port ! k)))"
proof (intro conjI impI)
  assume "get_certificate_chain_try env hostname port = Inl e"
  then show "get_certificate_chain env hostname port = []"
    by (simp add: get_certificate_chain_def)
next
  assume "get_verified_chain env hostname port = Inl e"
  then show "get_certificate_chain env hostname port = []"
    by (simp add: get_certificate_chain_def get_certificate_chain_try_def)
next
  assume g: "get_verified_chain env hostname port = Inr cert_chain"
    and d: "d \<in> set cert_chain" "DER_cert_to_PEM_cert env d = Inl e"
  from d obtain e' where "map_exn (DER_cert_to_PEM_cert env) cert_chain = Inl e'"
    using map_exn_Inl [of d cert_chain "DER_cert_to_PEM_cert env" e] by blast
  then show "get_certificate_chain env hostname port = []"
    by (simp add: get_certificate_chain_def get_certificate_chain_try_def g)
next
  assume g: "get_verified_chain env hostname port = Inr cert_chain"
    and a: "\<forall>d\<in>set cert_chain. \<exists>pem. DER_cert_to_PEM_cert env d = Inr pem"
  from a obtain pems
    where m: "map_exn (DER_cert_to_PEM_cert env) cert_chain = Inr pems"
    using map_exn_all_Inr [of cert_chain "DER_cert_to_PEM_cert env"] by blast
  have r: "get_certificate_chain env hostname port = pems"
    by (simp add: get_certificate_chain_def get_certificate_chain_try_def g m)
  from map_exn_Inr [OF m] show "length (get_certificate_chain env hostname port) = length cert_chain"
    by (simp add: r)
  from map_exn_Inr [OF m] show "\<forall>k<length cert_chain.
            DER_cert_to_PEM_cert env (cert_chain ! k)
              = Inr (get_certificate_chain env hostname port ! k)"
    by (simp add: r)
qed

theorem get_certificate_chain_failure_policy_witness:
  "get_verified_chain (example_env None (Inl KeyError) (Inl (Raised ''ssl.SSLError'')))
       (JStr (str ''example.com'')) (JNum 443) = Inl (Raised ''ssl.SSLError'')
   \<and> get_certificate_chain (example_env None (Inl KeyError) (Inl (Raised ''ssl.SSLError'')))
       (JStr (str ''example.com'')) (JNum 443) = []
   \<and> [] \<in> set [str ''AAA'', []]
   \<and> DER_cert_to_PEM_cert (example_env None (Inl KeyError) (Inr [str ''AAA'', []])) []
       = Inl (Raised ''ValueError'')
   \<and> get_certificate_chain (example_env None (Inl KeyError) (Inr [str ''AAA'', []]))
       (JStr (str ''example.com'')) (JNum 443) = []
   \<and> DER_cert_to_PEM_cert (example_env None (Inl KeyError) (Inr [str ''AAA'', str ''BBB'']))
       (str ''AAA'') = Inr (str ''AAA'')
   \<and> DER_cert_to_PEM_cert (example_env None (Inl KeyError) (Inr [str ''AAA'', str ''BBB'']))
       (str ''BBB'') = Inr (str ''BBB'')
   \<and> get_certificate_chain (example_env None (Inl KeyError) (Inr [str ''AAA'', str ''BBB'']))
       (JStr (str ''example.com'')) (JNum 443) = [str ''AAA'', str ''BBB'']"
  using get_certificate_chain_failure_policy
          [of "example_env None (Inl KeyError) (Inl (Raised ''ssl.SSLError''))"
              "JStr (str ''example.com'')" "JNum 443" "Raised ''ssl.SSLError''" "[]" "[]"]
        get_certificate_chain_failure_policy
          [of "example_env None (Inl KeyError) (Inr [str ''AAA'', []])"
              "JStr (str ''example.com'')" "JNum 443" "Raised ''ValueError''"
              "[str ''AAA'', []]" "[]"]
        get_certificate_chain_failure_policy
          [of "example_env None (Inl KeyError) (Inr [str ''AAA'', str ''BBB''])"
              "JStr (str ''example.com'')" "JNum 443" "Raised ''ValueError''"
              "[str ''AAA'', str ''BBB'']" "[]"]
  by (simp add: example_env_def get_certificate_chain_def get_certificate_chain_try_def str_def)

section \<open>Construction of the pinned configuration\<close>

lemma join_split_Inr: "join_split v = Inr t \<Longrightarrow> \<exists>s. v = JStr s \<and> t = remove_whitespace s"
  by (cases v) simp_all

lemma post_init_Inr:
  "post_init url port server intermediate root = Inr cfg \<Longrightarrow>
   \<exists>s i r. server = JStr s \<and> intermediate = JStr i \<and> root = JStr r
     \<and> cfg = \<lparr>URL = url, Port = port, ServerCert = remove_whitespace s,
               IntermediateCert = remove_whitespace i, RootCert = remove_whitespace r\<rparr>"
  unfolding post_init_def
  by (auto split: sum.splits dest!: join_split_Inr)

lemma ServerConfig_init_Inr:
  "ServerConfig_init secrets_dict = Inr cfg \<Longrightarrow>
   \<exists>kvs url port s i r.
     secrets_dict = JObj kvs
     \<and> map_of kvs (str ''URL'') = Some url \<and> map_of kvs (str ''Port'') = Some port
     \<and> map_of kvs (str ''ServerCert'') = Some (JStr s)
     \<and> map_of kvs (str ''IntermediateCert'') = Some (JStr i)
     \<and> map_of kvs (str ''RootCert'') = Some (JStr r)
     \<and> cfg = \<lparr>URL = url, Port = port, ServerCert = remove_whitespace s,
               IntermediateCert = remove_whitespace i, RootCert = remove_whitespace r\<rparr>"
  unfolding ServerConfig_init_def
  by (auto split: json.splits if_splits option.splits dest!: post_init_Inr)

text \<open>
  C7. In every constructed \<open>ServerConfig\<close> each certificate field is the string given in
  the secret with its whitespace characters filtered out and nothing else changed, so no
  whitespace character is left in it.
\<close>

theorem ServerConfig_certificates_whitespace_free:
  assumes "ServerConfig_init secrets_dict = Inr cfg"
  shows "\<exists>s i r.
           getitem secrets_dict (str ''ServerCert'') = Inr (JStr s)
         \<and> getitem secrets_dict (str ''IntermediateCert'') = Inr (JStr i)
         \<and> getitem secrets_dict (str ''RootCert'') = Inr (JStr r)
         \<and> ServerCert cfg = filter (\<lambda>c. \<not> is_space c) s
         \<and> IntermediateCert cfg = filter (\<lambda>c. \<not> is_space c) i
         \<and> RootCert cfg = filter (\<lambda>c. \<not> is_space c) r
         \<and> list_all (\<lambda>c. \<not> is_space c) (ServerCert cfg @ IntermediateCert cfg @ RootCert cfg)"
proof -
  from ServerConfig_init_Inr [OF assms] obtain kvs url port s i r where
    d: "secrets_dict = JObj kvs"
    and s: "map_of kvs (str ''ServerCert'') = Some (JStr s)"
    and i: "map_of kvs (str ''IntermediateCert'') = Some (JStr i)"
    and r: "map_of kvs (str ''RootCert'') = Some (JStr r)"
    and cfg: "cfg = \<lparr>URL = url, Port = port, ServerCert = remove_whitespace s,
               IntermediateCert = remove_whitespace i, RootCert = remove_whitespace r\<rparr>"
    by blast
  show ?thesis
    apply (rule exI [of _ s], rule exI [of _ i], rule exI [of _ r])
    apply (simp add: d s i r cfg remove_whitespace_filter list_all_iff)
    apply blast
    done
qed

theorem ServerConfig_certificates_whitespace_free_witness:
  "ServerConfig_init (example_secret [32, 65, 32, 97, 10, 65] (str ''B B B'') (str ''CCC''))
     = Inr \<lparr>URL = JStr (str ''example.com''), Port = JNum 443, ServerCert = str ''AaA'',
            IntermediateCert = str ''BBB'', RootCert = str ''CCC''\<rparr>
   \<and> (\<exists>s i r.
           getitem (example_secret [32, 65, 32, 97, 10, 65] (str ''B B B'') (str ''CCC''))
             (str ''ServerCert'') = Inr (JStr s)
         \<and> getitem (example_secret [32, 65, 32, 97, 10, 65] (str ''B B B'') (str ''CCC''))
             (str ''IntermediateCert'') = Inr (JStr i)
         \<and> getitem (example_secret [32, 65, 32, 97, 10, 65] (str ''B B B'') (str ''CCC''))
             (str ''RootCert'') = Inr (JStr r)
         \<and> str ''AaA'' = filter (\<lambda>c. \<not> is_space c) s
         \<and> str ''BBB'' = filter (\<lambda>c. \<not> is_space c) i
         \<and> str ''CCC'' = filter (\<lambda>c. \<not> is_space c) r
         \<and> list_all (\<lambda>c. \<not> is_space c) (str ''AaA'' @ str ''BBB'' @ str ''CCC''))"
proof -
  have c: "ServerConfig_init (example_secret [32, 65, 32, 97, 10, 65] (str ''B B B'') (str ''CCC''))
     = Inr \<lparr>URL = JStr (str ''example.com''), Port = JNum 443, ServerCert = str ''AaA'',
            IntermediateCert = str ''BBB'', RootCert = str ''CCC''\<rparr>"
    by (simp add: ServerConfig_init_def example_secret_def field_names_def post_init_def
          remove_whitespace_filter str_def is_space_def)
  from ServerConfig_certificates_whitespace_free [OF c] c show ?thesis by simp
qed

section \<open>The handler, path by path\<close>

lemma extract_certificate_nat:
  "extract_certificate chain (int k) =
     Inr (if k < length chain then Some (remove_whitespace (chain ! k)) else None)"
  by (simp add: extract_certificate_def list_getitem_def)

lemma extract_certificate_0:
  "extract_certificate chain 0 =
     Inr (if 0 < length chain then Some (remove_whitespace (chain ! 0)) else None)"
  using extract_certificate_nat [of chain 0] by simp

lemma extract_certificate_1:
  "extract_certificate chain 1 =
     Inr (if 1 < length chain then Some (remove_whitespace (chain ! 1)) else None)"
  using extract_certificate_nat [of chain 1] by simp

lemma extract_certificate_2:
  "extract_certificate chain 2 =
     Inr (if 2 < length chain then Some (remove_whitespace (chain ! 2)) else None)"
  using extract_certificate_nat [of chain 2] by simp

lemma compare_chain_eq:
  "compare_chain cfg chain =
     Inr (if 3 \<le> length chain
             \<and> remove_whitespace (chain ! 0) = ServerCert cfg
             \<and> remove_whitespace (chain ! 1) = IntermediateCert cfg
             \<and> remove_whitespace (chain ! 2) = RootCert cfg
          then ''Allow'' else ''Deny'')"
  unfolding compare_chain_def extract_certificate_0 extract_certificate_1
    extract_certificate_2 cert_results_def
  by (auto simp: eq_commute)

lemma lambda_handler_no_secret_name:
  assumes "getitem event (str ''requestContext'') = Inr request_context"
    and "getitem request_context (str ''identity'') = Inr identity"
    and "getitem identity (str ''sourceIp'') = Inr requester_ip"
    and "getitem event (str ''methodArn'') = Inr arn"
    and "getenv_secret_name env = None \<or> getenv_secret_name env = Some []"
  shows "lambda_handler env event =
     (Inr (generate_policy requester_ip (JStr (str ''Deny'')) arn), [])"
  using assms by (auto simp: lambda_handler_def return_policy_def)

lemma lambda_handler_config_failed:
  assumes "getitem event (str ''requestContext'') = Inr request_context"
    and "getitem request_context (str ''identity'') = Inr identity"
    and "getitem identity (str ''sourceIp'') = Inr requester_ip"
    and "getitem event (str ''methodArn'') = Inr arn"
    and "getenv_secret_name env = Some secret_name" and "secret_name \<noteq> []"
    and "load_server_config env secret_name = Inl e"
  shows "lambda_handler env event =
     (Inr (generate_policy (JStr (str ''user'')) (JStr (str ''Deny'')) arn),
      [GetSecretValue secret_name])"
  using assms by (simp add: lambda_handler_def return_policy_def)

lemma lambda_handler_loaded:
  assumes rc: "getitem event (str ''requestContext'') = Inr request_context"
    and idn: "getitem request_context (str ''identity'') = Inr identity"
    and ip: "getitem identity (str ''sourceIp'') = Inr requester_ip"
    and arn: "getitem event (str ''methodArn'') = Inr arn"
    and name: "getenv_secret_name env = Some secret_name" "secret_name \<noteq> []"
    and cfg: "load_server_config env secret_name = Inr cfg"
    and chain: "get_certificate_chain env (URL cfg) (Port cfg) = chain"
  shows "lambda_handler env event =
     (Inr (generate_policy requester_ip
            (JStr (str (if 3 \<le> length chain
                           \<and> remove_whitespace (chain ! 0) = ServerCert cfg
                           \<and> remove_whitespace (chain ! 1) = IntermediateCert cfg
                           \<and> remove_whitespace (chain ! 2) = RootCert cfg
                        then ''Allow'' else ''Deny''))) arn),
      [GetSecretValue secret_name, GetCertificateChain (URL cfg) (Port cfg)])"
proof (cases "chain = []")
  case True
  then show ?thesis
    by (simp add: lambda_handler_def rc idn ip arn name cfg chain return_policy_def)
next
  case False
  then show ?thesis
    by (simp add: lambda_handler_def rc idn ip arn name cfg chain return_policy_def Let_def
          compare_chain_eq)
qed

lemma allow_policy_neq_deny_policy:
  "generate_policy p (JStr (str ''Allow'')) r \<noteq> generate_policy p (JStr (str ''Deny'')) r"
  by (simp add: generate_policy_def str_def)

lemma example_event_fields:
  "getitem example_event (str ''requestContext'')
     = Inr (JObj [(str ''identity'', JObj [(str ''sourceIp'', JStr (str ''203.0.113.7''))])])"
  "getitem (JObj [(str ''identity'', JObj [(str ''sourceIp'', JStr (str ''203.0.113.7''))])])
     (str ''identity'') = Inr (JObj [(str ''sourceIp'', JStr (str ''203.0.113.7''))])"
  "getitem (JObj [(str ''sourceIp'', JStr (str ''203.0.113.7''))]) (str ''sourceIp'')
     = Inr (JStr (str ''203.0.113.7''))"
  "getitem example_event (str ''methodArn'')
     = Inr (JStr (str ''arn:aws:execute-api:eu-west-1:123456789012:a1b2c3/prod/GET/''))"
  by (simp_all add: example_event_def str_def)

lemma example_secret_loads:
  "load_server_config (example_env name (Inr (example_secret s i r)) chain) n
     = Inr \<lparr>URL = JStr (str ''example.com''), Port = JNum 443,
            ServerCert = remove_whitespace s, IntermediateCert = remove_whitespace i,
            RootCert = remove_whitespace r\<rparr>"
  by (simp add: load_server_config_def example_env_def example_secret_def
        ServerConfig_init_def field_names_def post_init_def str_def)

lemma example_env_chain:
  "list_all (\<lambda>d. d \<noteq> []) ders \<Longrightarrow>
   get_certificate_chain (example_env name secret (Inr ders)) host port = ders"
proof -
  assume a: "list_all (\<lambda>d. d \<noteq> []) ders"
  have "map_exn (\<lambda>d. if d = [] then Inl (Raised ''ValueError'') else Inr d) ders = Inr ders"
    using a by (induction ders) simp_all
  then show ?thesis
    by (simp add: get_certificate_chain_def get_certificate_chain_try_def example_env_def)
qed

lemma example_env_name: "getenv_secret_name (example_env name secret chain) = name"
  by (simp add: example_env_def)

section \<open>The decision\<close>

text \<open>
  C1. With a well-formed event, a secret name and a configuration that loads, the handler
  returns the Allow policy exactly when the retrieved chain has the three positions 0, 1
  and 2 and each entry, with its whitespace removed, equals the pinned certificate of that
  position; in every other case, a missing position included, it returns the Deny policy.
  A position that \<open>extract_certificate\<close> reports as \<open>None\<close> equals no pinned string.
\<close>

theorem lambda_handler_allow_iff:
  assumes "getitem event (str ''requestContext'') = Inr request_context"
    and "getitem request_context (str ''identity'') = Inr identity"
    and "getitem identity (str ''sourceIp'') = Inr requester_ip"
    and "getitem event (str ''methodArn'') = Inr arn"
    and "getenv_secret_name env = Some secret_name" and "secret_name \<noteq> []"
    and "load_server_config env secret_name = Inr cfg"
    and "get_certificate_chain env (URL cfg) (Port cfg) = chain"
  shows "(fst (lambda_handler env event)
            = Inr (generate_policy requester_ip (JStr (str ''Allow'')) arn)
          \<longleftrightarrow> 3 \<le> length chain
              \<and> filter (\<lambda>c. \<not> is_space c) (chain ! 0) = ServerCert cfg
              \<and> filter (\<lambda>c. \<not> is_space c) (chain ! 1) = IntermediateCert cfg
              \<and> filter (\<lambda>c. \<not> is_space c) (chain ! 2) = RootCert cfg)
       \<and> (fst (lambda_handler env event)
            = Inr (generate_policy requester_ip (JStr (str ''Deny'')) arn)
          \<longleftrightarrow> \<not> (3 \<le> length chain
              \<and> filter (\<lambda>c. \<not> is_space c) (chain ! 0) = ServerCert cfg
              \<and> filter (\<lambda>c. \<not> is_space c) (chain ! 1) = IntermediateCert cfg
              \<and> filter (\<lambda>c. \<not> is_space c) (chain ! 2) = RootCert cfg))
       \<and> (3 \<le> length chain
              \<and> filter (\<lambda>c. \<not> is_space c) (chain ! 0) = ServerCert cfg
              \<and> filter (\<lambda>c. \<not> is_space c) (chain ! 1) = IntermediateCert cfg
              \<and> filter (\<lambda>c. \<not> is_space c) (chain ! 2) = RootCert cfg
          \<longleftrightarrow> extract_certificate chain 0 = Inr (Some (ServerCert cfg))
              \<and> extract_certificate chain 1 = Inr (Some (IntermediateCert cfg))
              \<and> extract_certificate chain 2 = Inr (Some (RootCert cfg)))
       \<and> (extract_certificate chain 0 = Inr None \<or> extract_certificate chain 1 = Inr None
            \<or> extract_certificate chain 2 = Inr None
          \<longrightarrow> fst (lambda_handler env event)
                = Inr (generate_policy requester_ip (JStr (str ''Deny'')) arn))"
proof -
  note h = lambda_handler_loaded [OF assms]
  have neq: "generate_policy requester_ip (JStr (str ''Allow'')) arn
               \<noteq> generate_policy requester_ip (JStr (str ''Deny'')) arn"
    by (rule allow_policy_neq_deny_policy)
  show ?thesis
  proof (intro conjI)
    show "fst (lambda_handler env event)
            = Inr (generate_policy requester_ip (JStr (str ''Allow'')) arn)
          \<longleftrightarrow> 3 \<le> length chain
              \<and> filter (\<lambda>c. \<not> is_space c) (chain ! 0) = ServerCert cfg
              \<and> filter (\<lambda>c. \<not> is_space c) (chain ! 1) = IntermediateCert cfg
              \<and> filter (\<lambda>c. \<not> is_space c) (chain ! 2) = RootCert cfg"
      using neq by (simp add: h remove_whitespace_filter del: One_nat_def)
  next
    show "fst (lambda_handler env event)
            = Inr (generate_policy requester_ip (JStr (str ''Deny'')) arn)
          \<longleftrightarrow> \<not> (3 \<le> length chain
              \<and> filter (\<lambda>c. \<not> is_space c) (chain ! 0) = ServerCert cfg
              \<and> filter (\<lambda>c. \<not> is_space c) (chain ! 1) = IntermediateCert cfg
              \<and> filter (\<lambda>c. \<not> is_space c) (chain ! 2) = RootCert cfg)"
      using neq by (simp add: h remove_whitespace_filter del: One_nat_def)
  next
    show "3 \<le> length chain
              \<and> filter (\<lambda>c. \<not> is_space c) (chain ! 0) = ServerCert cfg
              \<and> filter (\<lambda>c. \<not> is_space c) (chain ! 1) = IntermediateCert cfg
              \<and> filter (\<lambda>c. \<not> is_space c) (chain ! 2) = RootCert cfg
          \<longleftrightarrow> extract_certificate chain 0 = Inr (Some (ServerCert cfg))
              \<and> extract_certificate chain 1 = Inr (Some (IntermediateCert cfg))
              \<and> extract_certificate chain 2 = Inr (Some (RootCert cfg))"
      by (auto simp: extract_certificate_0 extract_certificate_1 extract_certificate_2
            remove_whitespace_filter split: if_splits)
  next
    show "extract_certificate chain 0 = Inr None \<or> extract_certificate chain 1 = Inr None
            \<or> extract_certificate chain 2 = Inr None
          \<longrightarrow> fst (lambda_handler env event)
                = Inr (generate_policy requester_ip (JStr (str ''Deny'')) arn)"
      by (auto simp: h extract_certificate_0 extract_certificate_1 extract_certificate_2
            split: if_splits)
  qed
qed

theorem lambda_handler_allow_iff_witness:
  "getitem example_event (str ''requestContext'')
     = Inr (JObj [(str ''identity'', JObj [(str ''sourceIp'', JStr (str ''203.0.113.7''))])])
   \<and> getitem (JObj [(str ''identity'', JObj [(str ''sourceIp'', JStr (str ''203.0.113.7''))])])
       (str ''identity'') = Inr (JObj [(str ''sourceIp'', JStr (str ''203.0.113.7''))])
   \<and> getitem (JObj [(str ''sourceIp'', JStr (str ''203.0.113.7''))]) (str ''sourceIp'')
       = Inr (JStr (str ''203.0.113.7''))
   \<and> getitem example_event (str ''methodArn'')
       = Inr (JStr (str ''arn:aws:execute-api:eu-west-1:123456789012:a1b2c3/prod/GET/''))
   \<and> getenv_secret_name
        (example_env (Some (str ''pins''))
          (Inr (example_secret (str ''AAA'') (str ''BBB'') (str ''CCC'')))
          (Inr [[32, 65, 32, 65, 32, 65, 10], str ''B B B'', str ''CCC'']))
       = Some (str ''pins'')
   \<and> str ''pins'' \<noteq> []
   \<and> load_server_config
        (example_env (Some (str ''pins''))
          (Inr (example_secret (str ''AAA'') (str ''BBB'') (str ''CCC'')))
          (Inr [[32, 65, 32, 65, 32, 65, 10], str ''B B B'', str ''CCC'']))
        (str ''pins'')
       = Inr \<lparr>URL = JStr (str ''example.com''), Port = JNum 443, ServerCert = str ''AAA'',
              IntermediateCert = str ''BBB'', RootCert = str ''CCC''\<rparr>
   \<and> get_certificate_chain
        (example_env (Some (str ''pins''))
          (Inr (example_secret (str ''AAA'') (str ''BBB'') (str ''CCC'')))
          (Inr [[32, 65, 32, 65, 32, 65, 10], str ''B B B'', str ''CCC'']))
        (JStr (str ''example.com'')) (JNum 443)
       = [[32, 65, 32, 65, 32, 65, 10], str ''B B B'', str ''CCC'']
   \<and> fst (lambda_handler
        (example_env (Some (str ''pins''))
          (Inr (example_secret (str ''AAA'') (str ''BBB'') (str ''CCC'')))
          (Inr [[32, 65, 32, 65, 32, 65, 10], str ''B B B'', str ''CCC'']))
        example_event)
       = Inr (generate_policy (JStr (str ''203.0.113.7'')) (JStr (str ''Allow''))
               (JStr (str ''arn:aws:execute-api:eu-west-1:123456789012:a1b2c3/prod/GET/'')))"
proof -
  let ?env = "example_env (Some (str ''pins''))
          (Inr (example_secret (str ''AAA'') (str ''BBB'') (str ''CCC'')))
          (Inr [[32, 65, 32, 65, 32, 65, 10], str ''B B B'', str ''CCC''])"
  let ?cfg = "\<lparr>URL = JStr (str ''example.com''), Port = JNum 443, ServerCert = str ''AAA'',
              IntermediateCert = str ''BBB'', RootCert = str ''CCC''\<rparr>"
  have n: "getenv_secret_name ?env = Some (str ''pins'')" by (rule example_env_name)
  have ne: "str ''pins'' \<noteq> []" by (simp add: str_def)
  have l: "load_server_config ?env (str ''pins'') = Inr ?cfg"
    by (simp add: example_secret_loads remove_whitespace_filter str_def is_space_def)
  have c: "get_certificate_chain ?env (URL ?cfg) (Port ?cfg)
             = [[32, 65, 32, 65, 32, 65, 10], str ''B B B'', str ''CCC'']"
    by (rule example_env_chain) (simp add: str_def)
  have "fst (lambda_handler ?env example_event)
       = Inr (generate_policy (JStr (str ''203.0.113.7'')) (JStr (str ''Allow''))
               (JStr (str ''arn:aws:execute-api:eu-west-1:123456789012:a1b2c3/prod/GET/'')))"
    using lambda_handler_allow_iff [OF example_event_fields n ne l c]
    by (simp add: str_def is_space_def)
  then show ?thesis
    using example_event_fields n ne l c by simp
qed

text \<open>
  C2. Whatever the pinned certificates are, a retrieved chain with fewer than three
  entries, the empty chain included, gives the Deny policy and not the Allow policy.
\<close>

theorem lambda_handler_short_chain_deny:
  assumes "getitem event (str ''requestContext'') = Inr request_context"
    and "getitem request_context (str ''identity'') = Inr identity"
    and "getitem identity (str ''sourceIp'') = Inr requester_ip"
    and "getitem event (str ''methodArn'') = Inr arn"
    and "getenv_secret_name env = Some secret_name" and "secret_name \<noteq> []"
    and "load_server_config env secret_name = Inr cfg"
    and "length (get_certificate_chain env (URL cfg) (Port cfg)) < 3"
  shows "fst (lambda_handler env event)
            = Inr (generate_policy requester_ip (JStr (str ''Deny'')) arn)
       \<and> fst (lambda_handler env event)
            \<noteq> Inr (generate_policy requester_ip (JStr (str ''Allow'')) arn)"
proof -
  have h: "fst (lambda_handler env event)
            = Inr (generate_policy requester_ip (JStr (str ''Deny'')) arn)"
    using lambda_handler_loaded [OF assms(1-7) refl] assms(8) by simp
  show ?thesis
    using allow_policy_neq_deny_policy [of requester_ip arn] by (simp add: h)
qed

theorem lambda_handler_short_chain_deny_witness:
  "getitem example_event (str ''requestContext'')
     = Inr (JObj [(str ''identity'', JObj [(str ''sourceIp'', JStr (str ''203.0.113.7''))])])
   \<and> getitem (JObj [(str ''identity'', JObj [(str ''sourceIp'', JStr (str ''203.0.113.7''))])])
       (str ''identity'') = Inr (JObj [(str ''sourceIp'', JStr (str ''203.0.113.7''))])
   \<and> getitem (JObj [(str ''sourceIp'', JStr (str ''203.0.113.7''))]) (str ''sourceIp'')
       = Inr (JStr (str ''203.0.113.7''))
   \<and> getitem example_event (str ''methodArn'')
       = Inr (JStr (str ''arn:aws:execute-api:eu-west-1:123456789012:a1b2c3/prod/GET/''))
   \<and> getenv_secret_name
        (example_env (Some (str ''pins''))
          (Inr (example_secret (str ''AAA'') (str ''BBB'') (str ''CCC'')))
          (Inr [str ''AAA'', str ''BBB'']))
       = Some (str ''pins'')
   \<and> str ''pins'' \<noteq> []
   \<and> load_server_config
        (example_env (Some (str ''pins''))
          (Inr (example_secret (str ''AAA'') (str ''BBB'') (str ''CCC'')))
          (Inr [str ''AAA'', str ''BBB'']))
        (str ''pins'')
       = Inr \<lparr>URL = JStr (str ''example.com''), Port = JNum 443, ServerCert = str ''AAA'',
              IntermediateCert = str ''BBB'', RootCert = str ''CCC''\<rparr>
   \<and> length (get_certificate_chain
        (example_env (Some (str ''pins''))
          (Inr (example_secret (str ''AAA'') (str ''BBB'') (str ''CCC'')))
          (Inr [str ''AAA'', str ''BBB'']))
        (JStr (str ''example.com'')) (JNum 443)) < 3
   \<and> fst (lambda_handler
        (example_env (Some (str ''pins''))
          (Inr (example_secret (str ''AAA'') (str ''BBB'') (str ''CCC'')))
          (Inr [str ''AAA'', str ''BBB'']))
        example_event)
       = Inr (generate_policy (JStr (str ''203.0.113.7'')) (JStr (str ''Deny''))
               (JStr (str ''arn:aws:execute-api:eu-west-1:123456789012:a1b2c3/prod/GET/'')))"
proof -
  let ?env = "example_env (Some (str ''pins''))
          (Inr (example_secret (str ''AAA'') (str ''BBB'') (str ''CCC'')))
          (Inr [str ''AAA'', str ''BBB''])"
  let ?cfg = "\<lparr>URL = JStr (str ''example.com''), Port = JNum 443, ServerCert = str ''AAA'',
              IntermediateCert = str ''BBB'', RootCert = str ''CCC''\<rparr>"
  have n: "getenv_secret_name ?env = Some (str ''pins'')" by (rule example_env_name)
  have ne: "str ''pins'' \<noteq> []" by (simp add: str_def)
  have l: "load_server_config ?env (str ''pins'') = Inr ?cfg"
    by (simp add: example_secret_loads remove_whitespace_filter str_def is_space_def)
  have c: "get_certificate_chain ?env (URL ?cfg) (Port ?cfg) = [str ''AAA'', str ''BBB'']"
    by (rule example_env_chain) (simp add: str_def)
  have len: "length (get_certificate_chain ?env (URL ?cfg) (Port ?cfg)) < 3"
    using c by simp
  from lambda_handler_short_chain_deny [OF example_event_fields n ne l len]
  show ?thesis
    using example_event_fields n ne l c by simp
qed

section \<open>The principal of the policy\<close>

text \<open>
  C8. The policy carries the literal \<open>user\<close> as principal when loading the configuration
  raised, and the caller's source address on every other path: no secret name, no chain,
  and the comparison with either outcome.
\<close>

theorem lambda_handler_principal:
  assumes rc: "getitem event (str ''requestContext'') = Inr request_context"
    and idn: "getitem request_context (str ''identity'') = Inr identity"
    and ip: "getitem identity (str ''sourceIp'') = Inr requester_ip"
    and arn: "getitem event (str ''methodArn'') = Inr arn"
  shows "\<exists>policy. fst (lambda_handler env event) = Inr policy
           \<and> getitem policy (str ''principalId'')
               = Inr (case getenv_secret_name env of
                        None \<Rightarrow> requester_ip
                      | Some secret_name \<Rightarrow>
                          if secret_name \<noteq> [] \<and> isl (load_server_config env secret_name)
                          then JStr (str ''user'') else requester_ip)"
proof -
  have pid: "\<And>p e r. getitem (generate_policy p e r) (str ''principalId'') = Inr p"
    by (simp add: generate_policy_def)
  show ?thesis
  proof (cases "getenv_secret_name env")
    case None
    then show ?thesis
      using lambda_handler_no_secret_name [OF rc idn ip arn, of env] by (simp add: pid)
  next
    case (Some secret_name)
    show ?thesis
    proof (cases "secret_name = []")
      case True
      then show ?thesis
        using lambda_handler_no_secret_name [OF rc idn ip arn, of env] Some by (simp add: pid)
    next
      case False
      show ?thesis
      proof (cases "load_server_config env secret_name")
        case (Inl e)
        then show ?thesis
          using lambda_handler_config_failed [OF rc idn ip arn Some False Inl]
          by (simp add: pid Some False)
      next
        case (Inr cfg)
        then show ?thesis
          using lambda_handler_loaded [OF rc idn ip arn Some False Inr refl]
          by (simp add: pid Some False)
      qed
    qed
  qed
qed

theorem lambda_handler_principal_witness:
  "getitem example_event (str ''requestContext'')
     = Inr (JObj [(str ''identity'', JObj [(str ''sourceIp'', JStr (str ''203.0.113.7''))])])
   \<and> getitem (JObj [(str ''identity'', JObj [(str ''sourceIp'', JStr (str ''203.0.113.7''))])])
       (str ''identity'') = Inr (JObj [(str ''sourceIp'', JStr (str ''203.0.113.7''))])
   \<and> getitem (JObj [(str ''sourceIp'', JStr (str ''203.0.113.7''))]) (str ''sourceIp'')
       = Inr (JStr (str ''203.0.113.7''))
   \<and> getitem example_event (str ''methodArn'')
       = Inr (JStr (str ''arn:aws:execute-api:eu-west-1:123456789012:a1b2c3/prod/GET/''))
   \<and> (\<exists>policy.
         fst (lambda_handler
               (example_env (Some (str ''pins'')) (Inl (Raised ''ClientError'')) (Inr []))
               example_event) = Inr policy
         \<and> getitem policy (str ''principalId'') = Inr (JStr (str ''user'')))
   \<and> (\<exists>policy.
         fst (lambda_handler
               (example_env None (Inl (Raised ''ClientError'')) (Inr []))
               example_event) = Inr policy
         \<and> getitem policy (str ''principalId'') = Inr (JStr (str ''203.0.113.7'')))"
  using lambda_handler_principal [OF example_event_fields,
          of "example_env (Some (str ''pins'')) (Inl (Raised ''ClientError'')) (Inr [])"]
        lambda_handler_principal [OF example_event_fields,
          of "example_env None (Inl (Raised ''ClientError'')) (Inr [])"]
        example_event_fields
  by (simp add: example_env_def load_server_config_def str_def)

section \<open>Every path returns a policy\<close>

text \<open>
  C6, as the handler has it. For every environment and every event that carries
  \<open>requestContext.identity.sourceIp\<close> and \<open>methodArn\<close>, whichever path the invocation takes
  (no secret name, a configuration that fails to load, a failed retrieval, or the
  comparison), the handler returns a policy document whose effect is Allow or Deny.
\<close>

theorem lambda_handler_returns_policy:
  assumes rc: "getitem event (str ''requestContext'') = Inr request_context"
    and idn: "getitem request_context (str ''identity'') = Inr identity"
    and ip: "getitem identity (str ''sourceIp'') = Inr requester_ip"
    and arn: "getitem event (str ''methodArn'') = Inr arn"
  shows "\<exists>principal effect.
           fst (lambda_handler env event)
             = Inr (generate_policy principal (JStr (str effect)) arn)
           \<and> (effect = ''Allow'' \<or> effect = ''Deny'')"
proof (cases "getenv_secret_name env = None \<or> getenv_secret_name env = Some []")
  case True
  have "fst (lambda_handler env event)
          = Inr (generate_policy requester_ip (JStr (str ''Deny'')) arn)"
    using lambda_handler_no_secret_name [OF rc idn ip arn True] by simp
  then show ?thesis by blast
next
  case False
  then obtain secret_name where n: "getenv_secret_name env = Some secret_name"
    and ne: "secret_name \<noteq> []" by auto
  show ?thesis
  proof (cases "load_server_config env secret_name")
    case (Inl e)
    have "fst (lambda_handler env event)
            = Inr (generate_policy (JStr (str ''user'')) (JStr (str ''Deny'')) arn)"
      using lambda_handler_config_failed [OF rc idn ip arn n ne Inl] by simp
    then show ?thesis by blast
  next
    case (Inr cfg)
    let ?chain = "get_certificate_chain env (URL cfg) (Port cfg)"
    let ?effect = "if 3 \<le> length ?chain
                     \<and> remove_whitespace (?chain ! 0) = ServerCert cfg
                     \<and> remove_whitespace (?chain ! 1) = IntermediateCert cfg
                     \<and> remove_whitespace (?chain ! 2) = RootCert cfg
                  then ''Allow'' else ''Deny''"
    have "fst (lambda_handler env event)
            = Inr (generate_policy requester_ip (JStr (str ?effect)) arn)"
      using lambda_handler_loaded [OF rc idn ip arn n ne Inr refl] by simp
    moreover have "?effect = ''Allow'' \<or> ?effect = ''Deny''" by simp
    ultimately show ?thesis by blast
  qed
qed

theorem lambda_handler_returns_policy_witness:
  "getitem example_event (str ''requestContext'')
     = Inr (JObj [(str ''identity'', JObj [(str ''sourceIp'', JStr (str ''203.0.113.7''))])])
   \<and> getitem (JObj [(str ''identity'', JObj [(str ''sourceIp'', JStr (str ''203.0.113.7''))])])
       (str ''identity'') = Inr (JObj [(str ''sourceIp'', JStr (str ''203.0.113.7''))])
   \<and> getitem (JObj [(str ''sourceIp'', JStr (str ''203.0.113.7''))]) (str ''sourceIp'')
       = Inr (JStr (str ''203.0.113.7''))
   \<and> getitem example_event (str ''methodArn'')
       = Inr (JStr (str ''arn:aws:execute-api:eu-west-1:123456789012:a1b2c3/prod/GET/''))
   \<and> (\<exists>principal effect.
         fst (lambda_handler
               (example_env (Some (str ''pins'')) (Inr (JArr [])) (Inl (Raised ''socket.gaierror'')))
               example_event)
           = Inr (generate_policy principal (JStr (str effect))
                   (JStr (str ''arn:aws:execute-api:eu-west-1:123456789012:a1b2c3/prod/GET/'')))
         \<and> (effect = ''Allow'' \<or> effect = ''Deny''))"
  using lambda_handler_returns_policy [OF example_event_fields,
          of "example_env (Some (str ''pins'')) (Inr (JArr [])) (Inl (Raised ''socket.gaierror''))"]
        example_event_fields
  by simp

text \<open>
  C6 as stated speaks of every input event. The handler reads
  \<open>event["requestContext"]["identity"]["sourceIp"]\<close> outside any \<open>try\<close>: for an event without
  \<open>requestContext\<close>, such as the event of a TOKEN authorizer, KeyError leaves the handler.
\<close>

theorem lambda_handler_token_event_counterexample:
  "fst (lambda_handler
         (example_env (Some (str ''pins''))
           (Inr (example_secret (str ''AAA'') (str ''BBB'') (str ''CCC'')))
           (Inr [str ''AAA'', str ''BBB'', str ''CCC'']))
         (JObj [(str ''type'', JStr (str ''TOKEN'')),
                (str ''authorizationToken'', JStr (str ''allow'')),
                (str ''methodArn'',
                 JStr (str ''arn:aws:execute-api:eu-west-1:123456789012:a1b2c3/prod/GET/''))]))
     = Inl KeyError"
  by (simp add: lambda_handler_def str_def)

section \<open>Construction failures\<close>

lemma ServerConfig_init_missing:
  "k \<in> set field_names \<Longrightarrow> map_of kvs k = None \<Longrightarrow> ServerConfig_init (JObj kvs) = Inl TypeError"
  by (auto simp: ServerConfig_init_def field_names_def split: option.splits)

text \<open>
  C4, as the constructor has it. When one of the five fields is absent from the secret,
  construction raises (TypeError, from the generated \<open>__init__\<close>), and the handler returns the
  Deny policy having called the secret store only: no chain retrieval is attempted.
\<close>

theorem ServerConfig_init_missing_field:
  assumes "k \<in> set field_names" and "map_of kvs k = None"
    and rc: "getitem event (str ''requestContext'') = Inr request_context"
    and idn: "getitem request_context (str ''identity'') = Inr identity"
    and ip: "getitem identity (str ''sourceIp'') = Inr requester_ip"
    and arn: "getitem event (str ''methodArn'') = Inr arn"
    and n: "getenv_secret_name env = Some secret_name" and ne: "secret_name \<noteq> []"
    and s: "secret_json env secret_name = Inr (JObj kvs)"
  shows "ServerConfig_init (JObj kvs) = Inl TypeError
       \<and> lambda_handler env event =
           (Inr (generate_policy (JStr (str ''user'')) (JStr (str ''Deny'')) arn),
            [GetSecretValue secret_name])"
proof -
  have f: "ServerConfig_init (JObj kvs) = Inl TypeError"
    using assms(1,2) by (rule ServerConfig_init_missing)
  then have "load_server_config env secret_name = Inl TypeError"
    by (simp add: load_server_config_def s)
  from lambda_handler_config_failed [OF rc idn ip arn n ne this] f show ?thesis by simp
qed

theorem ServerConfig_init_missing_field_witness:
  "str ''ServerCert'' \<in> set field_names
   \<and> map_of [(str ''URL'', JStr (str ''example.com'')), (str ''Port'', JNum 443),
             (str ''IntermediateCert'', JStr (str ''BBB'')), (str ''RootCert'', JStr (str ''CCC''))]
        (str ''ServerCert'') = None
   \<and> getitem example_event (str ''requestContext'')
     = Inr (JObj [(str ''identity'', JObj [(str ''sourceIp'', JStr (str ''203.0.113.7''))])])
   \<and> getitem (JObj [(str ''identity'', JObj [(str ''sourceIp'', JStr (str ''203.0.113.7''))])])
       (str ''identity'') = Inr (JObj [(str ''sourceIp'', JStr (str ''203.0.113.7''))])
   \<and> getitem (JObj [(str ''sourceIp'', JStr (str ''203.0.113.7''))]) (str ''sourceIp'')
       = Inr (JStr (str ''203.0.113.7''))
   \<and> getitem example_event (str ''methodArn'')
       = Inr (JStr (str ''arn:aws:execute-api:eu-west-1:123456789012:a1b2c3/prod/GET/''))
   \<and> getenv_secret_name
        (example_env (Some (str ''pins''))
          (Inr (JObj [(str ''URL'', JStr (str ''example.com'')), (str ''Port'', JNum 443),
             (str ''IntermediateCert'', JStr (str ''BBB'')), (str ''RootCert'', JStr (str ''CCC''))]))
          (Inr [str ''AAA'', str ''BBB'', str ''CCC''])) = Some (str ''pins'')
   \<and> str ''pins'' \<noteq> []
   \<and> secret_json
        (example_env (Some (str ''pins''))
          (Inr (JObj [(str ''URL'', JStr (str ''example.com'')), (str ''Port'', JNum 443),
             (str ''IntermediateCert'', JStr (str ''BBB'')), (str ''RootCert'', JStr (str ''CCC''))]))
          (Inr [str ''AAA'', str ''BBB'', str ''CCC''])) (str ''pins'')
       = Inr (JObj [(str ''URL'', JStr (str ''example.com'')), (str ''Port'', JNum 443),
             (str ''IntermediateCert'', JStr (str ''BBB'')), (str ''RootCert'', JStr (str ''CCC''))])
   \<and> lambda_handler
        (example_env (Some (str ''pins''))
          (Inr (JObj [(str ''URL'', JStr (str ''example.com'')), (str ''Port'', JNum 443),
             (str ''IntermediateCert'', JStr (str ''BBB'')), (str ''RootCert'', JStr (str ''CCC''))]))
          (Inr [str ''AAA'', str ''BBB'', str ''CCC'']))
        example_event
       = (Inr (generate_policy (JStr (str ''user'')) (JStr (str ''Deny''))
                (JStr (str ''arn:aws:execute-api:eu-west-1:123456789012:a1b2c3/prod/GET/''))),
          [GetSecretValue (str ''pins'')])"
proof -
  let ?kvs = "[(str ''URL'', JStr (str ''example.com'')), (str ''Port'', JNum 443),
             (str ''IntermediateCert'', JStr (str ''BBB'')), (str ''RootCert'', JStr (str ''CCC''))]"
  let ?env = "example_env (Some (str ''pins'')) (Inr (JObj ?kvs))
                (Inr [str ''AAA'', str ''BBB'', str ''CCC''])"
  have k: "str ''ServerCert'' \<in> set field_names" by (simp add: field_names_def)
  have m: "map_of ?kvs (str ''ServerCert'') = None" by (simp add: str_def)
  have n: "getenv_secret_name ?env = Some (str ''pins'')" by (rule example_env_name)
  have ne: "str ''pins'' \<noteq> []" by (simp add: str_def)
  have s: "secret_json ?env (str ''pins'') = Inr (JObj ?kvs)" by (simp add: example_env_def)
  from ServerConfig_init_missing_field [OF k m example_event_fields n ne s]
  show ?thesis using k m example_event_fields n ne s by simp
qed

text \<open>
  C4 as stated also has construction fail on an empty field and on a port that is not a
  positive integer. The dataclass checks neither: a secret with an empty \<open>ServerCert\<close> gives a
  \<open>ServerConfig\<close> and the handler goes on to retrieve the chain, and an empty \<open>URL\<close> with
  port \<open>-1\<close> is accepted as well.
\<close>

theorem ServerConfig_init_empty_fields_counterexample:
  "ServerConfig_init (example_secret [] (str ''BBB'') (str ''CCC''))
     = Inr \<lparr>URL = JStr (str ''example.com''), Port = JNum 443, ServerCert = [],
            IntermediateCert = str ''BBB'', RootCert = str ''CCC''\<rparr>
   \<and> snd (lambda_handler
        (example_env (Some (str ''pins''))
          (Inr (example_secret [] (str ''BBB'') (str ''CCC'')))
          (Inr [str ''AAA'', str ''BBB'', str ''CCC'']))
        example_event)
       = [GetSecretValue (str ''pins''),
          GetCertificateChain (JStr (str ''example.com'')) (JNum 443)]
   \<and> ServerConfig_init
        (JObj [(str ''URL'', JStr []), (str ''Port'', JNum (- 1)),
               (str ''ServerCert'', JStr (str ''AAA'')),
               (str ''IntermediateCert'', JStr (str ''BBB'')),
               (str ''RootCert'', JStr (str ''CCC''))])
     = Inr \<lparr>URL = JStr [], Port = JNum (- 1), ServerCert = str ''AAA'',
            IntermediateCert = str ''BBB'', RootCert = str ''CCC''\<rparr>"
proof -
  let ?env = "example_env (Some (str ''pins''))
          (Inr (example_secret [] (str ''BBB'') (str ''CCC'')))
          (Inr [str ''AAA'', str ''BBB'', str ''CCC''])"
  let ?cfg = "\<lparr>URL = JStr (str ''example.com''), Port = JNum 443, ServerCert = [],
            IntermediateCert = str ''BBB'', RootCert = str ''CCC''\<rparr>"
  have a: "ServerConfig_init (example_secret [] (str ''BBB'') (str ''CCC'')) = Inr ?cfg"
    by (simp add: ServerConfig_init_def example_secret_def field_names_def post_init_def
          remove_whitespace_filter str_def is_space_def)
  have n: "getenv_secret_name ?env = Some (str ''pins'')" by (rule example_env_name)
  have ne: "str ''pins'' \<noteq> []" by (simp add: str_def)
  have l: "load_server_config ?env (str ''pins'') = Inr ?cfg"
    by (simp add: example_secret_loads remove_whitespace_filter str_def is_space_def)
  have b: "snd (lambda_handler ?env example_event)
       = [GetSecretValue (str ''pins''),
          GetCertificateChain (JStr (str ''example.com'')) (JNum 443)]"
    using lambda_handler_loaded [OF example_event_fields n ne l refl] by simp
  have c: "ServerConfig_init
        (JObj [(str ''URL'', JStr []), (str ''Port'', JNum (- 1)),
               (str ''ServerCert'', JStr (str ''AAA'')),
               (str ''IntermediateCert'', JStr (str ''BBB'')),
               (str ''RootCert'', JStr (str ''CCC''))])
     = Inr \<lparr>URL = JStr [], Port = JNum (- 1), ServerCert = str ''AAA'',
            IntermediateCert = str ''BBB'', RootCert = str ''CCC''\<rparr>"
    by (simp add: ServerConfig_init_def field_names_def post_init_def
          remove_whitespace_filter str_def is_space_def)
  from a b c show ?thesis by simp
qed

end
